theory Spec2Isabelle
  imports Complex_Main "HOL-Library.Monad_Syntax"
begin

section \<open>JavaScript numbers and property lookup\<close>

text \<open>
  A JavaScript \<open>number\<close> is a finite value, one of the two infinities, or NaN. The finite
  values are modelled as reals (rounding of literals is not modelled: every comparison
  in the scoring code is between an observed value and a decimal literal).
\<close>

datatype number = NaN | NegInf | Fin real | PosInf

text \<open>\<open>a <= b\<close> on numbers: any comparison with NaN is false.\<close>

fun num_le :: "number \<Rightarrow> number \<Rightarrow> bool" where
  "num_le NaN _ = False"
| "num_le _ NaN = False"
| "num_le NegInf _ = True"
| "num_le _ PosInf = True"
| "num_le (Fin a) (Fin b) = (a \<le> b)"
| "num_le (Fin a) NegInf = False"
| "num_le PosInf (Fin b) = False"
| "num_le PosInf NegInf = False"

text \<open>\<open>a >= b\<close> on numbers.\<close>

definition num_ge :: "number \<Rightarrow> number \<Rightarrow> bool" where
  "num_ge a b = num_le b a"

text \<open>
  The result of \<open>obj[key]\<close> on an object literal: \<open>undefined\<close>, a property the
  literal itself lists, or a property every object literal inherits from
  \<open>Object.prototype\<close> (a function, or for \<open>__proto__\<close> the prototype object: truthy,
  not \<open>null\<close>, and with no properties of the table's entries).
\<close>

datatype 'a js_prop = Undefined | Own 'a | Inherited

definition object_prototype_keys :: "string list" where
  "object_prototype_keys =
     [''constructor'', ''__defineGetter__'', ''__defineSetter__'', ''hasOwnProperty'',
      ''__lookupGetter__'', ''__lookupSetter__'', ''isPrototypeOf'',
      ''propertyIsEnumerable'', ''toString'', ''valueOf'', ''__proto__'',
      ''toLocaleString'']"

definition js_get :: "(string \<times> 'a) list \<Rightarrow> string \<Rightarrow> 'a js_prop" where
  "js_get obj k =
     (case map_of obj k of
        Some v \<Rightarrow> Own v
      | None \<Rightarrow> if k \<in> set object_prototype_keys then Inherited else Undefined)"

section \<open>Types (types/news.ts, types/patient.ts)\<close>

record ScoreThresholdBand =
  band_min :: number
  band_max :: number
  band_score :: int

record ParameterThresholds =
  parameter_key :: string
  label :: string
  bands :: "ScoreThresholdBand list"

definition band :: "number \<Rightarrow> number \<Rightarrow> int \<Rightarrow> ScoreThresholdBand" where
  "band lo hi s = \<lparr>band_min = lo, band_max = hi, band_score = s\<rparr>"

definition NEWS2_THRESHOLDS :: "(string \<times> ParameterThresholds) list" where
  "NEWS2_THRESHOLDS =
   [(''respiratoryRate'',
       \<lparr>parameter_key = ''rr'', label = ''Respiratory Rate'',
        bands = [band NegInf (Fin 8) 3, band (Fin 9) (Fin 11) 1, band (Fin 12) (Fin 20) 0,
                 band (Fin 21) (Fin 24) 2, band (Fin 25) PosInf 3]\<rparr>),
    (''spo2Scale1'',
       \<lparr>parameter_key = ''spo2'', label = ''SpO2 Scale 1'',
        bands = [band NegInf (Fin 91) 3, band (Fin 92) (Fin 93) 2, band (Fin 94) (Fin 95) 1,
                 band (Fin 96) PosInf 0]\<rparr>),
    (''spo2Scale2OnO2'',
       \<lparr>parameter_key = ''spo2'', label = ''SpO2 Scale 2 (on supplemental O2)'',
        bands = [band NegInf (Fin 83) 3, band (Fin 84) (Fin 85) 2, band (Fin 86) (Fin 87) 1,
                 band (Fin 88) (Fin 92) 0, band (Fin 93) PosInf 0]\<rparr>),
    (''spo2Scale2OnAir'',
       \<lparr>parameter_key = ''spo2'', label = ''SpO2 Scale 2 (on room air)'',
        bands = [band NegInf (Fin 83) 3, band (Fin 84) (Fin 85) 2, band (Fin 86) (Fin 87) 1,
                 band (Fin 88) (Fin 92) 0, band (Fin 93) (Fin 94) 1, band (Fin 95) (Fin 96) 2,
                 band (Fin 97) PosInf 3]\<rparr>),
    (''supplementalO2'',
       \<lparr>parameter_key = ''supplementalO2'', label = ''Supplemental Oxygen'',
        bands = [band (Fin 0) (Fin 0) 0, band (Fin 1) (Fin 1) 2]\<rparr>),
    (''temperature'',
       \<lparr>parameter_key = ''temp'', label = ''Temperature'',
        bands = [band NegInf (Fin 35) 3, band (Fin (351 / 10)) (Fin 36) 1,
                 band (Fin (361 / 10)) (Fin 38) 0, band (Fin (381 / 10)) (Fin 39) 1,
                 band (Fin (391 / 10)) PosInf 2]\<rparr>),
    (''systolicBP'',
       \<lparr>parameter_key = ''bp_sys'', label = ''Systolic Blood Pressure'',
        bands = [band NegInf (Fin 90) 3, band (Fin 91) (Fin 100) 2, band (Fin 101) (Fin 110) 1,
                 band (Fin 111) (Fin 219) 0, band (Fin 220) PosInf 3]\<rparr>),
    (''heartRate'',
       \<lparr>parameter_key = ''hr'', label = ''Heart Rate'',
        bands = [band NegInf (Fin 40) 3, band (Fin 41) (Fin 50) 1, band (Fin 51) (Fin 90) 0,
                 band (Fin 91) (Fin 110) 1, band (Fin 111) (Fin 130) 2,
                 band (Fin 131) PosInf 3]\<rparr>),
    (''consciousness'',
       \<lparr>parameter_key = ''avpu'', label = ''Consciousness (AVPU)'',
        bands = [band (Fin 0) (Fin 0) 0, band (Fin 1) (Fin 3) 3]\<rparr>)]"

definition AVPU_NUMERIC_MAP :: "(string \<times> number) list" where
  "AVPU_NUMERIC_MAP =
     [(''A'', Fin 0), (''C'', Fin 1), (''V'', Fin 2), (''P'', Fin 3), (''U'', Fin 3)]"

record ClinicalRiskThresholds =
  high :: int
  medium :: int
  lowMediumSingleParam :: int

definition CLINICAL_RISK_THRESHOLDS :: ClinicalRiskThresholds where
  "CLINICAL_RISK_THRESHOLDS = \<lparr>high = 7, medium = 5, lowMediumSingleParam = 3\<rparr>"

datatype ClinicalRisk = Low | LowMedium | Medium | High

text \<open>The value of a sub-score: the observed number, or a label.\<close>

datatype SubScoreValue = NumVal number | StrVal string

record NEWS2SubScore =
  parameter :: string
  val :: SubScoreValue
  score :: int

record NEWS2Result =
  totalScore :: int
  subScores :: "NEWS2SubScore list"
  clinicalRisk :: ClinicalRisk
  escalationLevel :: int

text \<open>
  A vital-sign observation; every field but \<open>datetime\<close> is optional (\<open>None\<close> is an
  absent, \<open>undefined\<close> or \<open>null\<close> field). \<open>avpu\<close> is declared as one of four
  letters, but the loader casts any string to it, so it is a string here.
\<close>

record VitalSign =
  datetime :: string
  temp :: "number option"
  hr :: "number option"
  rr :: "number option"
  bp_sys :: "number option"
  bp_dia :: "number option"
  spo2 :: "number option"
  avpu :: "string option"
  supplementalO2 :: "bool option"
  newsScore :: "number option"
  painScore :: "number option"

section \<open>The NEWS2 calculator (services/newsCalculator.ts)\<close>

text \<open>
  \<open>calculateSubScore\<close>: \<open>None\<close> is the TypeError of \<open>thresholds.bands.find\<close> when
  \<open>thresholds\<close> is an inherited property, which passes the \<open>!thresholds\<close> guard and
  has no \<open>bands\<close>.
\<close>

definition in_band :: "number \<Rightarrow> ScoreThresholdBand \<Rightarrow> bool" where
  "in_band v b = (num_ge v (band_min b) \<and> num_le v (band_max b))"

text \<open>\<open>thresholds.bands.find(...)\<close> followed by \<open>band?.score ?? 0\<close>.\<close>

definition find_band_score :: "ScoreThresholdBand list \<Rightarrow> number \<Rightarrow> int" where
  "find_band_score bs v =
     (case find (in_band v) bs of
        None \<Rightarrow> 0
      | Some b \<Rightarrow> band_score b)"

definition calculateSubScore :: "string \<Rightarrow> number \<Rightarrow> int option" where
  "calculateSubScore p v =
     (case js_get NEWS2_THRESHOLDS p of
        Undefined \<Rightarrow> Some 0
      | Inherited \<Rightarrow> None
      | Own thresholds \<Rightarrow> Some (find_band_score (bands thresholds) v))"

definition getClinicalRisk :: "int \<Rightarrow> bool \<Rightarrow> ClinicalRisk" where
  "getClinicalRisk total_score hasRedScore =
     (if total_score \<ge> high CLINICAL_RISK_THRESHOLDS then High
      else if total_score \<ge> medium CLINICAL_RISK_THRESHOLDS then Medium
      else if hasRedScore then LowMedium
      else Low)"

fun getEscalationLevel :: "ClinicalRisk \<Rightarrow> int" where
  "getEscalationLevel Low = 0"
| "getEscalationLevel LowMedium = 1"
| "getEscalationLevel Medium = 2"
| "getEscalationLevel High = 3"

text \<open>
  \<open>AVPU_NUMERIC_MAP[vital.avpu] ?? 0\<close>: \<open>??\<close> replaces only \<open>undefined\<close> and
  \<open>null\<close>. An inherited property (a function or an object) is kept, and every later
  comparison with a band bound converts it to NaN.
\<close>

definition avpuNumeric :: "string \<Rightarrow> number" where
  "avpuNumeric a =
     (case js_get AVPU_NUMERIC_MAP a of
        Own n \<Rightarrow> n
      | Undefined \<Rightarrow> Fin 0
      | Inherited \<Rightarrow> NaN)"

text \<open>
  One block of \<open>calculateNEWS2\<close>: \<open>const score = calculateSubScore(key, numeric);
  subScores.push({ parameter, value, score })\<close>, as the list of what it pushes.
\<close>

definition push_sub_score ::
  "string \<Rightarrow> string \<Rightarrow> SubScoreValue \<Rightarrow> number \<Rightarrow> NEWS2SubScore list option" where
  "push_sub_score key param shown numeric =
     do {
       sc \<leftarrow> calculateSubScore key numeric;
       Some [\<lparr>parameter = param, val = shown, score = sc\<rparr>]
     }"

definition calculateNEWS2 :: "VitalSign \<Rightarrow> NEWS2Result option" where
  "calculateNEWS2 vital =
     do {
       s_rr \<leftarrow> (case rr vital of
                  None \<Rightarrow> Some []
                | Some x \<Rightarrow> push_sub_score ''respiratoryRate'' ''Respiratory Rate'' (NumVal x) x);
       s_spo2 \<leftarrow> (case spo2 vital of
                  None \<Rightarrow> Some []
                | Some x \<Rightarrow> push_sub_score ''spo2Scale1'' ''SpO2'' (NumVal x) x);
       s_o2 \<leftarrow> (let numericValue = (if supplementalO2 vital = Some True then Fin 1 else Fin 0)
                in push_sub_score ''supplementalO2'' ''Supplemental O2''
                     (StrVal (if supplementalO2 vital = Some True then ''Yes'' else ''No''))
                     numericValue);
       s_temp \<leftarrow> (case temp vital of
                  None \<Rightarrow> Some []
                | Some x \<Rightarrow> push_sub_score ''temperature'' ''Temperature'' (NumVal x) x);
       s_bp \<leftarrow> (case bp_sys vital of
                  None \<Rightarrow> Some []
                | Some x \<Rightarrow> push_sub_score ''systolicBP'' ''Systolic BP'' (NumVal x) x);
       s_hr \<leftarrow> (case hr vital of
                  None \<Rightarrow> Some []
                | Some x \<Rightarrow> push_sub_score ''heartRate'' ''Heart Rate'' (NumVal x) x);
       s_avpu \<leftarrow> (case avpu vital of
                  None \<Rightarrow> Some []
                | Some a \<Rightarrow> push_sub_score ''consciousness'' ''Consciousness'' (StrVal a)
                             (avpuNumeric a));
       let subs = s_rr @ s_spo2 @ s_o2 @ s_temp @ s_bp @ s_hr @ s_avpu;
           total_score = sum_list (map score subs);
           hasRedScore = list_ex (\<lambda>s. score s = 3) subs;
           risk = getClinicalRisk total_score hasRedScore
       in Some \<lparr>totalScore = total_score, subScores = subs, clinicalRisk = risk,
                 escalationLevel = getEscalationLevel risk\<rparr>
     }"

text \<open>The bands of a table entry, and those among them that contain a value.\<close>

definition bands_of :: "string \<Rightarrow> ScoreThresholdBand list" where
  "bands_of k = (case map_of NEWS2_THRESHOLDS k of Some th \<Rightarrow> bands th | None \<Rightarrow> [])"

definition bands_containing :: "string \<Rightarrow> number \<Rightarrow> ScoreThresholdBand list" where
  "bands_containing k v = filter (in_band v) (bands_of k)"

text \<open>An observation that charts nothing but its time.\<close>

definition bare_observation :: VitalSign where
  "bare_observation =
     \<lparr>datetime = ''2026-02-17T08:00:00'', temp = None, hr = None, rr = None, bp_sys = None,
      bp_dia = None, spo2 = None, avpu = None, supplementalO2 = None, newsScore = None,
      painScore = None\<rparr>"

section \<open>The trend of the score (hooks/useNewsScore.ts)\<close>

datatype NewsTrend = Improving | Stable | Worsening

record UseNewsScoreResult =
  latestScore :: "NEWS2Result option"
  riskLevel :: "ClinicalRisk option"
  trend :: NewsTrend
  scoreHistory :: "NEWS2Result list"

text \<open>The block of \<open>useNewsScore\<close> that derives the trend from the score history.\<close>

definition deriveTrend :: "NEWS2Result list \<Rightarrow> NewsTrend" where
  "deriveTrend history =
     (if length history \<ge> 2 then
        (let current = totalScore (history ! 0);
             previous = totalScore (history ! 1);
             delta = current - previous
         in if delta > 0 then Worsening
            else if delta < 0 then Improving
            else Stable)
      else Stable)"

text \<open>
  \<open>useNewsScore\<close>, without the memoisation. \<open>None\<close> is an exception: one thrown while an
  observation is scored, or the TypeError of reading \<open>latestScore.clinicalRisk\<close> of an
  empty history.
\<close>

definition useNewsScore :: "VitalSign list \<Rightarrow> UseNewsScoreResult option" where
  "useNewsScore vitals =
     (if vitals = [] then
        Some \<lparr>latestScore = None, riskLevel = None, trend = Stable, scoreHistory = []\<rparr>
      else
        do {
          history \<leftarrow> those (map calculateNEWS2 vitals);
          (case history of
             [] \<Rightarrow> None
           | latest # _ \<Rightarrow>
               Some \<lparr>latestScore = Some latest, riskLevel = Some (clinicalRisk latest),
                     trend = deriveTrend history, scoreHistory = history\<rparr>)
        })"

section \<open>The alert engine (services/alertEngine.ts)\<close>

datatype AlertSeverity = Info | Warning | Critical

datatype AlertType =
  vital_out_of_range | news_score_elevated | news_score_critical | deterioration_trend
  | overdue_observation

text \<open>
  The message of an alert, by its template and the values put into it (the text that
  JavaScript prints for a number is not modelled):
  \<open>CRITICAL: <label> = <value> (outside safe range)\<close>,
  \<open>WARNING: <label> = <value> (approaching limits)\<close>,
  \<open>NEWS2 Score <total> - <risk> risk. Escalation level <level>.\<close> and
  \<open>RED score in: <parameters>. Requires increased monitoring.\<close>
\<close>

datatype AlertMessage =
  CriticalVitalMessage string number
  | WarningVitalMessage string number
  | NewsScoreMessage int ClinicalRisk int
  | RedScoreMessage "string list"

record Alert =
  alert_id :: string
  alert_type :: AlertType
  severity :: AlertSeverity
  message :: AlertMessage
  timestamp :: string
  acknowledged :: bool
  patientMrn :: string


record VitalAlertThreshold =
  warningLow :: "number option"
  warningHigh :: "number option"
  criticalLow :: "number option"
  criticalHigh :: "number option"
  alert_label :: string

definition VITAL_ALERT_THRESHOLDS :: "(string \<times> VitalAlertThreshold) list" where
  "VITAL_ALERT_THRESHOLDS =
     [(''hr'', \<lparr>warningLow = Some (Fin 50), warningHigh = Some (Fin 110),
               criticalLow = Some (Fin 40), criticalHigh = Some (Fin 130),
               alert_label = ''Heart Rate''\<rparr>),
      (''rr'', \<lparr>warningLow = Some (Fin 11), warningHigh = Some (Fin 21),
               criticalLow = Some (Fin 8), criticalHigh = Some (Fin 25),
               alert_label = ''Respiratory Rate''\<rparr>),
      (''bp_sys'', \<lparr>warningLow = Some (Fin 100), warningHigh = Some (Fin 180),
                   criticalLow = Some (Fin 90), criticalHigh = Some (Fin 220),
                   alert_label = ''Systolic BP''\<rparr>),
      (''spo2'', \<lparr>warningLow = Some (Fin 94), warningHigh = None,
                 criticalLow = Some (Fin 91), criticalHigh = None,
                 alert_label = ''SpO2''\<rparr>),
      (''temp'', \<lparr>warningLow = Some (Fin (355 / 10)), warningHigh = Some (Fin (385 / 10)),
                 criticalLow = Some (Fin 35), criticalHigh = Some (Fin (391 / 10)),
                 alert_label = ''Temperature''\<rparr>)]"

text \<open>The module's state: the ledger and the id counter.\<close>

record AlertStore =
  alerts :: "Alert list"
  alertIdCounter :: nat


text \<open>\<open>String(n)\<close> for a natural number, and \<open>padStart\<close>.\<close>

definition digit_char :: "nat \<Rightarrow> char" where
  "digit_char d = ''0123456789'' ! d"

fun string_of_nat :: "nat \<Rightarrow> string" where
  "string_of_nat n =
     (if n < 10 then [digit_char n]
      else string_of_nat (n div 10) @ [digit_char (n mod 10)])"

declare string_of_nat.simps [simp del]

definition padStart :: "nat \<Rightarrow> char \<Rightarrow> string \<Rightarrow> string" where
  "padStart target c s = replicate (target - length s) c @ s"

definition format_alert_id :: "nat \<Rightarrow> string" where
  "format_alert_id n = ''ALT-'' @ padStart 4 (CHR ''0'') (string_of_nat n)"

definition generateAlertId :: "AlertStore \<Rightarrow> string \<times> AlertStore" where
  "generateAlertId store =
     (let n = alertIdCounter store + 1
      in (format_alert_id n, store\<lparr>alertIdCounter := n\<rparr>))"






fun riskMap :: "ClinicalRisk \<Rightarrow> (AlertSeverity \<times> AlertType) option" where
  "riskMap Low = None"
| "riskMap LowMedium = Some (Info, news_score_elevated)"
| "riskMap Medium = Some (Warning, news_score_elevated)"
| "riskMap High = Some (Critical, news_score_critical)"

definition checkNEWSScore ::
  "NEWS2Result \<Rightarrow> string \<Rightarrow> string \<Rightarrow> AlertStore \<Rightarrow> Alert list \<times> AlertStore" where
  "checkNEWSScore result patient_mrn now store =
     (let (scoreAlerts, store1) =
            (case riskMap (clinicalRisk result) of
               None \<Rightarrow> ([], store)
             | Some (sev, ty) \<Rightarrow>
                 (let (new_id, store') = generateAlertId store
                  in ([\<lparr>alert_id = new_id, alert_type = ty, severity = sev,
                         message = NewsScoreMessage (totalScore result) (clinicalRisk result)
                                     (escalationLevel result),
                         timestamp = now, acknowledged = False,
                         patientMrn = patient_mrn\<rparr>],
                      store')));
          redParams = filter (\<lambda>s. score s = 3) (subScores result);
          (redAlerts, store2) =
            (if length redParams > 0 \<and> clinicalRisk result \<noteq> High then
               (let (new_id, store') = generateAlertId store1
                in ([\<lparr>alert_id = new_id, alert_type = news_score_elevated,
                       severity = Warning,
                       message = RedScoreMessage (map parameter redParams),
                       timestamp = now, acknowledged = False, patientMrn = patient_mrn\<rparr>],
                    store'))
             else ([], store1));
          newAlerts = scoreAlerts @ redAlerts
      in (newAlerts, store2\<lparr>alerts := alerts store2 @ newAlerts\<rparr>))"







fun is_score_message :: "AlertMessage \<Rightarrow> bool" where
  "is_score_message (NewsScoreMessage _ _ _) = True"
| "is_score_message _ = False"

fun is_red_message :: "AlertMessage \<Rightarrow> bool" where
  "is_red_message (RedScoreMessage _) = True"
| "is_red_message _ = False"



text \<open>The number an alert id prints, read back from its digits.\<close>

definition digit_value :: "char \<Rightarrow> nat" where
  "digit_value c = of_char c - 48"

definition nat_of_digits :: "string \<Rightarrow> nat" where
  "nat_of_digits s = foldl (\<lambda>acc c. 10 * acc + digit_value c) 0 s"

definition alert_number :: "string \<Rightarrow> nat" where
  "alert_number aid = nat_of_digits (drop 4 aid)"

section \<open>Risk classification\<close>

text \<open>
  C1. For every total score \<open>t\<close> and red-score flag \<open>r\<close>, the classifier returns High
  iff \<open>t \<ge> 7\<close>, Medium iff \<open>5 \<le> t < 7\<close> (whatever \<open>r\<close> is), Low-Medium iff \<open>t < 5\<close>
  and \<open>r\<close>, and Low iff \<open>t < 5\<close> and not \<open>r\<close>.
\<close>

theorem getClinicalRisk_bands:
  "(getClinicalRisk t r = High \<longleftrightarrow> t \<ge> 7) \<and>
   (getClinicalRisk t r = Medium \<longleftrightarrow> 5 \<le> t \<and> t < 7) \<and>
   (getClinicalRisk t r = LowMedium \<longleftrightarrow> t < 5 \<and> r) \<and>
   (getClinicalRisk t r = Low \<longleftrightarrow> t < 5 \<and> \<not> r)"
  by (auto simp: getClinicalRisk_def CLINICAL_RISK_THRESHOLDS_def)

section \<open>Sub-scores of one parameter\<close>

lemma num_le_Fin:
  "num_le (Fin a) x =
     (case x of NaN \<Rightarrow> False | NegInf \<Rightarrow> False | Fin b \<Rightarrow> a \<le> b | PosInf \<Rightarrow> True)"
  by (cases x) auto

lemma calculateSubScore_own:
  "map_of NEWS2_THRESHOLDS k = Some th \<Longrightarrow>
   calculateSubScore k x = Some (find_band_score (bands th) x)"
  by (simp add: calculateSubScore_def js_get_def)

lemma calculateSubScore_unknown:
  "map_of NEWS2_THRESHOLDS p = None \<Longrightarrow> p \<notin> set object_prototype_keys \<Longrightarrow>
   calculateSubScore p v = Some 0"
  by (simp add: calculateSubScore_def js_get_def)

lemma table_keys:
  "map fst NEWS2_THRESHOLDS =
     [''respiratoryRate'', ''spo2Scale1'', ''spo2Scale2OnO2'', ''spo2Scale2OnAir'',
      ''supplementalO2'', ''temperature'', ''systolicBP'', ''heartRate'', ''consciousness'']"
  by (simp add: NEWS2_THRESHOLDS_def)

lemma prototype_keys_not_in_table:
  "set object_prototype_keys \<inter> set (map fst NEWS2_THRESHOLDS) = {}"
  unfolding table_keys object_prototype_keys_def by simp

lemma inherited_key_not_in_table:
  assumes "p \<in> set object_prototype_keys"
  shows "map_of NEWS2_THRESHOLDS p = None"
proof -
  from assms have "p \<notin> set (map fst NEWS2_THRESHOLDS)"
    using prototype_keys_not_in_table by blast
  then show ?thesis by (simp add: map_of_eq_None_iff)
qed

lemma calculateSubScore_inherited:
  "p \<in> set object_prototype_keys \<Longrightarrow> calculateSubScore p v = None"
  by (simp add: calculateSubScore_def js_get_def inherited_key_not_in_table)

lemma table_entries:
  "map_of NEWS2_THRESHOLDS ''respiratoryRate'' = Some (snd (NEWS2_THRESHOLDS ! 0))"
  "map_of NEWS2_THRESHOLDS ''spo2Scale1'' = Some (snd (NEWS2_THRESHOLDS ! 1))"
  "map_of NEWS2_THRESHOLDS ''supplementalO2'' = Some (snd (NEWS2_THRESHOLDS ! 4))"
  "map_of NEWS2_THRESHOLDS ''temperature'' = Some (snd (NEWS2_THRESHOLDS ! 5))"
  "map_of NEWS2_THRESHOLDS ''systolicBP'' = Some (snd (NEWS2_THRESHOLDS ! 6))"
  "map_of NEWS2_THRESHOLDS ''heartRate'' = Some (snd (NEWS2_THRESHOLDS ! 7))"
  "map_of NEWS2_THRESHOLDS ''consciousness'' = Some (snd (NEWS2_THRESHOLDS ! 8))"
  by (simp_all add: NEWS2_THRESHOLDS_def)

lemma push_known:
  "map_of NEWS2_THRESHOLDS k = Some th \<Longrightarrow>
   push_sub_score k p shown x =
     Some [\<lparr>parameter = p, val = shown, score = find_band_score (bands th) x\<rparr>]"
  by (simp add: push_sub_score_def calculateSubScore_own)

lemmas push_table =
  push_known [OF table_entries(1)] push_known [OF table_entries(2)]
  push_known [OF table_entries(3)] push_known [OF table_entries(4)]
  push_known [OF table_entries(5)] push_known [OF table_entries(6)]
  push_known [OF table_entries(7)]

lemma opt_block:
  "(\<And>x. f x = Some (g x)) \<Longrightarrow>
   (case v of None \<Rightarrow> Some [] | Some x \<Rightarrow> f x) =
     Some (case v of None \<Rightarrow> [] | Some x \<Rightarrow> g x)"
  by (cases v) auto

text \<open>What the temperature table scores, band by band: between two bands it scores 0.\<close>

lemma calculateSubScore_temperature:
  "calculateSubScore ''temperature'' (Fin t) =
     Some (if t \<le> 35 then 3
           else if 351 / 10 \<le> t \<and> t \<le> 36 then 1
           else if 361 / 10 \<le> t \<and> t \<le> 38 then 0
           else if 381 / 10 \<le> t \<and> t \<le> 39 then 1
           else if 391 / 10 \<le> t then 2
           else 0)"
  by (simp add: calculateSubScore_def js_get_def NEWS2_THRESHOLDS_def find_band_score_def
      in_band_def num_ge_def band_def num_le_Fin)

lemma supplementalO2_score:
  "find_band_score (bands (snd (NEWS2_THRESHOLDS ! 4))) (if b then Fin 1 else Fin 0) =
     (if b then 2 else 0)"
  by (simp add: NEWS2_THRESHOLDS_def find_band_score_def in_band_def num_ge_def band_def
      num_le_Fin)



text \<open>The table's bands never overlap, whatever the value.\<close>

lemma bands_no_overlap:
  "length (bands_containing ''respiratoryRate'' x) \<le> 1"
  "length (bands_containing ''spo2Scale1'' x) \<le> 1"
  "length (bands_containing ''spo2Scale2OnO2'' x) \<le> 1"
  "length (bands_containing ''spo2Scale2OnAir'' x) \<le> 1"
  "length (bands_containing ''temperature'' x) \<le> 1"
  "length (bands_containing ''systolicBP'' x) \<le> 1"
  "length (bands_containing ''heartRate'' x) \<le> 1"
  by (cases x; simp add: bands_containing_def bands_of_def NEWS2_THRESHOLDS_def
      in_band_def num_ge_def band_def num_le_Fin)+

text \<open>Whole numbers (tenths, for the temperature) lie in exactly one band.\<close>

lemma bands_cover_whole_numbers:
  "length (bands_containing ''respiratoryRate'' (Fin (of_int n))) = 1"
  "length (bands_containing ''spo2Scale1'' (Fin (of_int n))) = 1"
  "length (bands_containing ''spo2Scale2OnO2'' (Fin (of_int n))) = 1"
  "length (bands_containing ''spo2Scale2OnAir'' (Fin (of_int n))) = 1"
  "length (bands_containing ''systolicBP'' (Fin (of_int n))) = 1"
  "length (bands_containing ''heartRate'' (Fin (of_int n))) = 1"
  by (simp_all add: bands_containing_def bands_of_def NEWS2_THRESHOLDS_def
      in_band_def num_ge_def band_def num_le_Fin)

lemma temperature_bands_cover_tenths:
  "length (bands_containing ''temperature'' (Fin (of_int n / 10))) = 1"
  by (simp add: bands_containing_def bands_of_def NEWS2_THRESHOLDS_def
      in_band_def num_ge_def band_def num_le_Fin)

section \<open>The sub-scores of an observation\<close>

lemma calculateNEWS2_total: "\<exists>r. calculateNEWS2 v = Some r"
  unfolding calculateNEWS2_def
  by (simp add: push_table opt_block Let_def)

text \<open>
  C2, as the code has it. Scoring an observation succeeds, and its sub-scores are, in
  this order: one for each of respiratory rate, SpO2, temperature, systolic BP, heart
  rate and consciousness that is present, none for one that is absent, and always one
  for supplemental oxygen, which an absent flag scores like \<open>false\<close>: value No, score 0.
  No other field of the observation yields a sub-score.
\<close>

theorem calculateNEWS2_sub_scores:
  "\<exists>r. calculateNEWS2 v = Some r \<and>
     map parameter (subScores r) =
       (if rr v = None then [] else [''Respiratory Rate'']) @
       (if spo2 v = None then [] else [''SpO2'']) @
       [''Supplemental O2''] @
       (if temp v = None then [] else [''Temperature'']) @
       (if bp_sys v = None then [] else [''Systolic BP'']) @
       (if hr v = None then [] else [''Heart Rate'']) @
       (if avpu v = None then [] else [''Consciousness'']) \<and>
     find (\<lambda>s. parameter s = ''Supplemental O2'') (subScores r) =
       Some \<lparr>parameter = ''Supplemental O2'',
             val = StrVal (if supplementalO2 v = Some True then ''Yes'' else ''No''),
             score = (if supplementalO2 v = Some True then 2 else 0)\<rparr>"
  unfolding calculateNEWS2_def
  by (simp add: push_table opt_block Let_def
      supplementalO2_score [of "supplementalO2 v = Some True", simplified]
      split: option.split)

text \<open>
  C2 as stated fails: an observation with no supplemental-oxygen flag (and no other
  field) still gets a Supplemental O2 sub-score.
\<close>

theorem absent_supplementalO2_is_scored:
  "supplementalO2 bare_observation = None \<and>
   map_option subScores (calculateNEWS2 bare_observation) =
     Some [\<lparr>parameter = ''Supplemental O2'', val = StrVal ''No'', score = 0\<rparr>]"
  by (simp add: calculateNEWS2_def bare_observation_def push_table NEWS2_THRESHOLDS_def
      find_band_score_def in_band_def num_ge_def band_def num_le_Fin Let_def)

text \<open>
  C3 at a temperature between two bands: 35.05 is above 35.0 and at most 36.0, where
  the specification says 1, and the Temperature sub-score is 0.
\<close>

theorem temperature_between_bands_scores_zero:
  "map_option subScores
     (calculateNEWS2 (bare_observation\<lparr>temp := Some (Fin (3505 / 100))\<rparr>)) =
   Some [\<lparr>parameter = ''Supplemental O2'', val = StrVal ''No'', score = 0\<rparr>,
         \<lparr>parameter = ''Temperature'', val = NumVal (Fin (3505 / 100)), score = 0\<rparr>]"
  by (simp add: calculateNEWS2_def bare_observation_def push_table NEWS2_THRESHOLDS_def
      find_band_score_def in_band_def num_ge_def band_def num_le_Fin Let_def)

text \<open>
  C4 at a value between two bands of each continuous parameter: no band of the
  parameter contains it.
\<close>

theorem bands_have_gaps:
  "bands_containing ''respiratoryRate'' (Fin (17 / 2)) = [] \<and>
   bands_containing ''spo2Scale1'' (Fin (183 / 2)) = [] \<and>
   bands_containing ''spo2Scale2OnO2'' (Fin (167 / 2)) = [] \<and>
   bands_containing ''spo2Scale2OnAir'' (Fin (167 / 2)) = [] \<and>
   bands_containing ''temperature'' (Fin (3505 / 100)) = [] \<and>
   bands_containing ''systolicBP'' (Fin (181 / 2)) = [] \<and>
   bands_containing ''heartRate'' (Fin (81 / 2)) = []"
  by (simp add: bands_containing_def bands_of_def NEWS2_THRESHOLDS_def
      in_band_def num_ge_def band_def num_le_Fin)

text \<open>
  C9 at the key \<open>constructor\<close>: the table has no entry for it, and the call throws
  instead of returning 0.
\<close>

theorem calculateSubScore_constructor_throws:
  "map_of NEWS2_THRESHOLDS ''constructor'' = None \<and>
   calculateSubScore ''constructor'' (Fin 0) = None"
  by (simp add: calculateSubScore_def js_get_def NEWS2_THRESHOLDS_def
      object_prototype_keys_def)




section \<open>The trend\<close>

lemma those_map_total:
  "(\<And>x. \<exists>y. f x = Some y) \<Longrightarrow>
   \<exists>ys. those (map f xs) = Some ys \<and> map Some ys = map f xs"
proof (induction xs)
  case Nil
  then show ?case by simp
next
  case (Cons x xs)
  then obtain ys where ys: "those (map f xs) = Some ys" "map Some ys = map f xs" by blast
  from Cons.prems obtain y where "f x = Some y" by blast
  with ys show ?case by simp
qed

lemma deriveTrend_short: "length history \<le> 1 \<Longrightarrow> deriveTrend history = Stable"
  by (simp add: deriveTrend_def)

lemma deriveTrend_two:
  "deriveTrend (r0 # r1 # rest) =
     (if totalScore r0 > totalScore r1 then Worsening
      else if totalScore r0 < totalScore r1 then Improving else Stable)"
  by (simp add: deriveTrend_def Let_def)

lemma useNewsScore_total:
  "\<exists>res. useNewsScore vitals = Some res \<and> trend res = deriveTrend (scoreHistory res) \<and>
     map Some (scoreHistory res) = map calculateNEWS2 vitals"
proof (cases vitals)
  case Nil
  then show ?thesis by (simp add: useNewsScore_def deriveTrend_def)
next
  case (Cons v vs)
  obtain ys where ys: "those (map calculateNEWS2 vitals) = Some ys"
      "map Some ys = map calculateNEWS2 vitals"
    using those_map_total [of calculateNEWS2 vitals] calculateNEWS2_total by blast
  with Cons obtain y ys' where "ys = y # ys'" by (cases ys) auto
  with ys Cons show ?thesis by (simp add: useNewsScore_def)
qed

text \<open>
  C7. Of a score history, newest first: with fewer than two entries the trend is
  stable; with the two newest totals \<open>a\<close> and \<open>b\<close> it is worsening iff \<open>a > b\<close>,
  improving iff \<open>a < b\<close> and stable iff \<open>a = b\<close>. The hook always returns, its history
  is the score of each observation in order, and its trend is the trend of that history.
\<close>

theorem trend_of_two_latest:
  "(length history \<le> 1 \<longrightarrow> deriveTrend history = Stable) \<and>
   (deriveTrend (r0 # r1 # rest) = Worsening \<longleftrightarrow> totalScore r0 > totalScore r1) \<and>
   (deriveTrend (r0 # r1 # rest) = Improving \<longleftrightarrow> totalScore r0 < totalScore r1) \<and>
   (deriveTrend (r0 # r1 # rest) = Stable \<longleftrightarrow> totalScore r0 = totalScore r1) \<and>
   (\<exists>res. useNewsScore vitals = Some res \<and> trend res = deriveTrend (scoreHistory res) \<and>
      map Some (scoreHistory res) = map calculateNEWS2 vitals)"
  using useNewsScore_total [of vitals] deriveTrend_short [of history]
  by (simp add: deriveTrend_two)

theorem trend_of_two_latest_witness:
  "length [\<lparr>totalScore = 3, subScores = [], clinicalRisk = LowMedium,
             escalationLevel = 1\<rparr>] \<le> 1 \<and>
   deriveTrend [\<lparr>totalScore = 3, subScores = [], clinicalRisk = LowMedium,
                 escalationLevel = 1\<rparr>] = Stable \<and>
   deriveTrend [\<lparr>totalScore = 3, subScores = [], clinicalRisk = LowMedium,
                 escalationLevel = 1\<rparr>,
                \<lparr>totalScore = 0, subScores = [], clinicalRisk = Low,
                 escalationLevel = 0\<rparr>] = Worsening"
  using trend_of_two_latest
    [of "[\<lparr>totalScore = 3, subScores = [], clinicalRisk = LowMedium, escalationLevel = 1\<rparr>]"
        "\<lparr>totalScore = 3, subScores = [], clinicalRisk = LowMedium, escalationLevel = 1\<rparr>"
        "\<lparr>totalScore = 0, subScores = [], clinicalRisk = Low, escalationLevel = 0\<rparr>"
        "[]" "[]"]
  by simp

section \<open>The alert engine: the loop of checkVitals\<close>















lemma monitored_parameters:
  "map fst VITAL_ALERT_THRESHOLDS = [''hr'', ''rr'', ''bp_sys'', ''spo2'', ''temp'']"
  "map (\<lambda>e. alert_label (snd e)) VITAL_ALERT_THRESHOLDS =
     [''Heart Rate'', ''Respiratory Rate'', ''Systolic BP'', ''SpO2'', ''Temperature'']"
  by (simp_all add: VITAL_ALERT_THRESHOLDS_def)



section \<open>The alert engine: alerts on the score\<close>

lemma checkNEWSScore_out:
  "\<exists>new. checkNEWSScore r m now s =
       (new, s\<lparr>alertIdCounter := alertIdCounter s + length new, alerts := alerts s @ new\<rparr>) \<and>
     map severity (filter (\<lambda>a. is_score_message (message a)) new) =
       (case clinicalRisk r of Low \<Rightarrow> [] | LowMedium \<Rightarrow> [Info] | Medium \<Rightarrow> [Warning]
        | High \<Rightarrow> [Critical]) \<and>
     map severity (filter (\<lambda>a. is_red_message (message a)) new) =
       (if (\<exists>x \<in> set (subScores r). score x = 3) \<and> clinicalRisk r \<noteq> High
        then [Warning] else []) \<and>
     length new = length (filter (\<lambda>a. is_score_message (message a)) new) +
                  length (filter (\<lambda>a. is_red_message (message a)) new) \<and>
     map alert_id new =
       map format_alert_id [Suc (alertIdCounter s) ..< Suc (alertIdCounter s) + length new]"
proof -
  have red: "(length (filter (\<lambda>x. score x = 3) (subScores r)) > 0) =
      (\<exists>x \<in> set (subScores r). score x = 3)"
    by (simp add: filter_empty_conv)
  show ?thesis
    by (cases "clinicalRisk r";
        cases "\<exists>x \<in> set (subScores r). score x = 3";
        simp add: checkNEWSScore_def generateAlertId_def Let_def red filter_empty_conv
          del: length_greater_0_conv)
qed

text \<open>
  C6. The alerts of \<open>checkNEWSScore\<close> are score-threshold alerts and red-parameter
  alerts and nothing else. There is exactly one score-threshold alert, of severity
  info, warning or critical, when the risk is Low-Medium, Medium or High, and none when
  it is Low; and there is one red-parameter alert, a warning, exactly when some sub-score
  is 3 and the risk is not High.
\<close>

theorem checkNEWSScore_alerts:
  "map severity (filter (\<lambda>a. is_score_message (message a))
                        (fst (checkNEWSScore r m now s))) =
     (case clinicalRisk r of Low \<Rightarrow> [] | LowMedium \<Rightarrow> [Info] | Medium \<Rightarrow> [Warning]
      | High \<Rightarrow> [Critical]) \<and>
   map severity (filter (\<lambda>a. is_red_message (message a))
                        (fst (checkNEWSScore r m now s))) =
     (if (\<exists>x \<in> set (subScores r). score x = 3) \<and> clinicalRisk r \<noteq> High
      then [Warning] else []) \<and>
   length (fst (checkNEWSScore r m now s)) =
     length (filter (\<lambda>a. is_score_message (message a)) (fst (checkNEWSScore r m now s))) +
     length (filter (\<lambda>a. is_red_message (message a)) (fst (checkNEWSScore r m now s)))"
  using checkNEWSScore_out [of r m now s] by auto

section \<open>The alert engine: the ids of the ledger\<close>

lemma digit_value_digit_char: "d < 10 \<Longrightarrow> digit_value (digit_char d) = d"
proof -
  assume "d < 10"
  then have "d \<in> {0, 1, 2, 3, 4, 5, 6, 7, 8, 9}" by auto
  then show ?thesis
    by (auto simp: digit_value_def digit_char_def)
qed

lemma nat_of_digits_snoc:
  "nat_of_digits (s @ [c]) = 10 * nat_of_digits s + digit_value c"
  by (simp add: nat_of_digits_def)

lemma nat_of_digits_string_of_nat: "nat_of_digits (string_of_nat n) = n"
proof (induction n rule: string_of_nat.induct)
  case (1 n)
  show ?case
  proof (cases "n < 10")
    case True
    then show ?thesis
      using nat_of_digits_snoc [of "[]" "digit_char n"]
      by (simp add: string_of_nat.simps [of n] digit_value_digit_char nat_of_digits_def)
  next
    case False
    then have "nat_of_digits (string_of_nat (n div 10)) = n div 10" using "1.IH" by simp
    with False show ?thesis
      by (simp add: string_of_nat.simps [of n] nat_of_digits_snoc digit_value_digit_char)
  qed
qed

lemma nat_of_digits_zeros:
  "nat_of_digits (replicate k (CHR ''0'') @ s) = nat_of_digits s"
proof -
  have "foldl (\<lambda>acc c. 10 * acc + digit_value c) 0 (replicate k (CHR ''0'')) = 0"
    by (induction k) (simp_all add: digit_value_def)
  then show ?thesis by (simp add: nat_of_digits_def)
qed

lemma alert_number_format_alert_id: "alert_number (format_alert_id n) = n"
  by (simp add: alert_number_def format_alert_id_def padStart_def nat_of_digits_zeros
      nat_of_digits_string_of_nat)

lemma format_alert_id_inj: "inj format_alert_id"
  by (rule inj_on_inverseI [where g = alert_number]) (rule alert_number_format_alert_id)







end
